theory Spec2Isabelle
  imports Complex_Main "HOL-Library.Word" "HOL-Library.AList"
begin

unbundle bit_operations_syntax

section \<open>JavaScript values\<close>

text \<open>
  The plugin (\<^verbatim>\<open>main.ts\<close>) is TypeScript running on the JavaScript engine of the host
  editor. Its static types are erased at run time, and the values it receives from the
  network and from the host's storage are whatever JSON was delivered. The embedding
  therefore works on run-time values.

  A string is a sequence of UTF-16 code units, which is what \<^verbatim>\<open>length\<close> and
  \<^verbatim>\<open>substring\<close> count. \<open>ascii\<close> embeds a literal that consists of ASCII characters;
  the two Cyrillic literals the requests contain are written out as code units.
\<close>

type_synonym jsstring = "16 word list"

definition ascii :: "string \<Rightarrow> jsstring" where
  "ascii s = map (\<lambda>c. of_nat (of_char c)) s"

text \<open>
  A number is a finite value or one of the three non-finite values. Finite values are
  modelled by the rational they denote: rounding to binary64 and the sign of zero are
  outside the model, and a decimal literal of the source (\<^verbatim>\<open>0.1\<close>) stands for its
  exact value.
\<close>

datatype number = Num rat | NaN | PosInfinity | NegInfinity

datatype jsvalue =
    JUndefined
  | JNull
  | JBool bool
  | JNumber number
  | JString jsstring
  | JArray "jsvalue list"
  | JObject "(jsstring \<times> jsvalue) list"

text \<open>
  An object is the list of its own properties in insertion order; a property is looked
  up with \<open>map_of\<close>. (The engine enumerates keys that are array indices before the
  other keys; the order of properties plays no part in what follows.) Property keys are
  names or array indices (the source reads \<^verbatim>\<open>choices[0]\<close>).
\<close>

datatype key = Name jsstring | Index nat

text \<open>
  Exceptions: \<open>Error m\<close> is \<^verbatim>\<open>throw new Error(m)\<close> of the program itself;
  \<open>CannotRead v k\<close> is the engine's \<^verbatim>\<open>TypeError\<close> when property \<open>k\<close> is read from
  \<^verbatim>\<open>undefined\<close> or \<^verbatim>\<open>null\<close>; \<open>CannotConvert v\<close> is the engine's \<^verbatim>\<open>TypeError\<close> when the
  object \<open>v\<close> has no primitive value to turn into a string; \<open>PlatformError m\<close> is a
  rejection produced by the platform (\<^verbatim>\<open>fetch\<close> failing at the network level,
  \<^verbatim>\<open>response.json()\<close> on a body that is not JSON).
\<close>

datatype exn =
    Error jsstring
  | CannotRead jsvalue key
  | CannotConvert jsvalue
  | PlatformError jsstring

definition digit :: "nat \<Rightarrow> 16 word" where
  "digit d = of_nat (48 + d)"

function decimal :: "nat \<Rightarrow> jsstring" where
  "decimal n = (if n < 10 then [digit n] else decimal (n div 10) @ [digit (n mod 10)])"
  by pat_completeness auto
termination
  by (relation "measure id") auto

declare decimal.simps [simp del]

text \<open>
  Reading a property. Inherited properties (\<^verbatim>\<open>toString\<close>, \<^verbatim>\<open>constructor\<close>, ...) are not
  modelled: none of the names the program reads is inherited.
\<close>

fun get :: "jsvalue \<Rightarrow> key \<Rightarrow> exn + jsvalue" where
  "get JUndefined k = Inl (CannotRead JUndefined k)"
| "get JNull k = Inl (CannotRead JNull k)"
| "get (JBool b) k = Inr JUndefined"
| "get (JNumber n) k = Inr JUndefined"
| "get (JString s) (Index i) = (if i < length s then Inr (JString [s ! i]) else Inr JUndefined)"
| "get (JString s) (Name p) =
     (if p = ascii ''length'' then Inr (JNumber (Num (of_nat (length s)))) else Inr JUndefined)"
| "get (JArray xs) (Index i) = (if i < length xs then Inr (xs ! i) else Inr JUndefined)"
| "get (JArray xs) (Name p) =
     (if p = ascii ''length'' then Inr (JNumber (Num (of_nat (length xs)))) else Inr JUndefined)"
| "get (JObject ps) (Name p) = (case map_of ps p of Some v \<Rightarrow> Inr v | None \<Rightarrow> Inr JUndefined)"
| "get (JObject ps) (Index i) =
     (case map_of ps (decimal i) of Some v \<Rightarrow> Inr v | None \<Rightarrow> Inr JUndefined)"

definition then_get :: "exn + jsvalue \<Rightarrow> key \<Rightarrow> exn + jsvalue" where
  "then_get r k = (case r of Inl e \<Rightarrow> Inl e | Inr v \<Rightarrow> get v k)"

text \<open>The truth value of a value in a condition (\<^verbatim>\<open>if (!accessToken)\<close>).\<close>

fun truthy :: "jsvalue \<Rightarrow> bool" where
  "truthy JUndefined = False"
| "truthy JNull = False"
| "truthy (JBool b) = b"
| "truthy (JNumber n) = (case n of Num q \<Rightarrow> q \<noteq> 0 | NaN \<Rightarrow> False | _ \<Rightarrow> True)"
| "truthy (JString s) = (s \<noteq> [])"
| "truthy (JArray xs) = True"
| "truthy (JObject ps) = True"

text \<open>
  The text of a value inside a template literal (the conversion \<^verbatim>\<open>ToString\<close> of the
  language). The text of a number is the platform's (\<^verbatim>\<open>Number.prototype.toString\<close>) and
  is a parameter. An object is converted by its \<^verbatim>\<open>toString\<close> method: a parsed JSON object
  inherits the one that answers \<^verbatim>\<open>[object Object]\<close>, unless it has a property of its own
  with that name, which is never a function; then the inherited \<^verbatim>\<open>valueOf\<close> (or an own
  property of that name) gives no primitive value either and the conversion throws. An
  array is converted by joining the texts of its elements with commas, \<^verbatim>\<open>null\<close> and
  \<^verbatim>\<open>undefined\<close> elements counting as empty; the first element that throws makes the
  conversion throw.
\<close>

fun join_comma :: "jsstring list \<Rightarrow> jsstring" where
  "join_comma [] = []"
| "join_comma [s] = s"
| "join_comma (s # t # ss) = s @ ascii '','' @ join_comma (t # ss)"

fun to_string :: "(number \<Rightarrow> jsstring) \<Rightarrow> jsvalue \<Rightarrow> exn + jsstring"
  and elements_text :: "(number \<Rightarrow> jsstring) \<Rightarrow> jsvalue list \<Rightarrow> exn + jsstring list" where
  "to_string nt JUndefined = Inr (ascii ''undefined'')"
| "to_string nt JNull = Inr (ascii ''null'')"
| "to_string nt (JBool b) = Inr (if b then ascii ''true'' else ascii ''false'')"
| "to_string nt (JNumber n) = Inr (nt n)"
| "to_string nt (JString s) = Inr s"
| "to_string nt (JArray xs) =
     (case elements_text nt xs of Inl e \<Rightarrow> Inl e | Inr ts \<Rightarrow> Inr (join_comma ts))"
| "to_string nt (JObject ps) =
     (case map_of ps (ascii ''toString'') of
        None \<Rightarrow> Inr (ascii ''[object Object]'')
      | Some v \<Rightarrow> Inl (CannotConvert (JObject ps)))"
| "elements_text nt [] = Inr []"
| "elements_text nt (x # xs) =
     (case (if x = JUndefined then Inr [] else if x = JNull then Inr [] else to_string nt x) of
        Inl e \<Rightarrow> Inl e
      | Inr t \<Rightarrow> (case elements_text nt xs of Inl e \<Rightarrow> Inl e | Inr ts \<Rightarrow> Inr (t # ts)))"

text \<open>
  \<^verbatim>\<open>JSON.stringify\<close> produces a text; the model keeps the JSON value that this text
  denotes. A non-finite number is written as \<^verbatim>\<open>null\<close>, an \<^verbatim>\<open>undefined\<close> array element as
  \<^verbatim>\<open>null\<close>, and a property whose value is \<^verbatim>\<open>undefined\<close> is left out.
\<close>

fun JSON_stringify :: "jsvalue \<Rightarrow> jsvalue" where
  "JSON_stringify (JNumber n) = (case n of Num q \<Rightarrow> JNumber (Num q) | _ \<Rightarrow> JNull)"
| "JSON_stringify (JArray xs) =
     JArray (map (\<lambda>x. if x = JUndefined then JNull else JSON_stringify x) xs)"
| "JSON_stringify (JObject ps) =
     JObject (map (\<lambda>(k, v). (k, JSON_stringify v)) (filter (\<lambda>(k, v). v \<noteq> JUndefined) ps))"
| "JSON_stringify v = v"

text \<open>
  The own enumerable properties of a value, as \<^verbatim>\<open>Object.assign\<close> copies them from a
  source: those of an object, the indexed elements of an array, the indexed characters of
  a string, and none for \<^verbatim>\<open>null\<close>, \<^verbatim>\<open>undefined\<close>, a boolean or a number.
\<close>

fun own_props :: "jsvalue \<Rightarrow> (jsstring \<times> jsvalue) list" where
  "own_props (JObject ps) = ps"
| "own_props (JArray xs) = map (\<lambda>i. (decimal i, xs ! i)) [0..<length xs]"
| "own_props (JString s) = map (\<lambda>i. (decimal i, JString [s ! i])) [0..<length s]"
| "own_props v = []"

text \<open>
  \<^verbatim>\<open>Object.assign\<close> sets each property of the source on the target, in order. On a
  target that inherits from \<^verbatim>\<open>Object.prototype\<close>, as the fresh object of \<^verbatim>\<open>loadSettings\<close>
  does, setting the key \<^verbatim>\<open>__proto__\<close> reaches the inherited setter and creates no
  property. The model keeps the own properties of the target; the prototype such a key
  may install is not tracked, and the program reads no property through it: the nine
  settings are own properties.
\<close>

definition Object_assign :: "(jsstring \<times> jsvalue) list \<Rightarrow> jsvalue \<Rightarrow> (jsstring \<times> jsvalue) list" where
  "Object_assign target source =
     fold (\<lambda>(k, v) t. if k = ascii ''__proto__'' then t else AList.update k v t)
       (own_props source) target"

definition is_finite :: "number \<Rightarrow> bool" where
  "is_finite n = (case n of Num q \<Rightarrow> True | NaN \<Rightarrow> False | PosInfinity \<Rightarrow> False
                  | NegInfinity \<Rightarrow> False)"

section \<open>Settings\<close>

record TextGeneratorSettings =
  apiKey :: jsstring
  apiUrl :: jsstring
  authUrl :: jsstring
  clientId :: jsstring
  scope :: jsstring
  model :: jsstring
  temperature :: number
  maxTokens :: number
  logMessages :: bool

definition DEFAULT_SETTINGS :: TextGeneratorSettings where
  "DEFAULT_SETTINGS = \<lparr>
     apiKey = [],
     apiUrl = ascii ''https://gigachat.devices.sberbank.ru/api/v1'',
     authUrl = ascii ''https://ngw.devices.sberbank.ru:9443/api/v2/oauth'',
     clientId = ascii ''<base64>'',
     scope = ascii ''GIGACHAT_API_PERS'',
     model = ascii ''GigaChat'',
     temperature = Num (7 / 10),
     maxTokens = Num 1000,
     logMessages = True \<rparr>"

text \<open>The run-time object of a settings record: its nine properties in declaration order.\<close>

definition settings_object :: "TextGeneratorSettings \<Rightarrow> (jsstring \<times> jsvalue) list" where
  "settings_object s =
     [(ascii ''apiKey'', JString (apiKey s)),
      (ascii ''apiUrl'', JString (apiUrl s)),
      (ascii ''authUrl'', JString (authUrl s)),
      (ascii ''clientId'', JString (clientId s)),
      (ascii ''scope'', JString (scope s)),
      (ascii ''model'', JString (model s)),
      (ascii ''temperature'', JNumber (temperature s)),
      (ascii ''maxTokens'', JNumber (maxTokens s)),
      (ascii ''logMessages'', JBool (logMessages s))]"

text \<open>
  \<^verbatim>\<open>loadSettings\<close> and \<^verbatim>\<open>saveSettings\<close>. The host's \<^verbatim>\<open>saveData\<close> and \<^verbatim>\<open>loadData\<close> are
  not part of the plugin: the host writes the saved value as JSON text into the data file
  of the plugin and \<^verbatim>\<open>loadData\<close> parses that file, resolving to \<^verbatim>\<open>null\<close> when there is
  none. \<open>saveData\<close> gives the content of the data file, as the JSON value it denotes,
  after the call. \<open>loadSettings\<close> takes the value \<^verbatim>\<open>loadData\<close> resolves to and returns the
  own properties of the new \<^verbatim>\<open>this.settings\<close>; \<open>saveSettings\<close> takes those of
  \<^verbatim>\<open>this.settings\<close> and returns the new content of the data file.
\<close>

definition saveData :: "jsvalue \<Rightarrow> jsvalue" where
  "saveData v = JSON_stringify v"

definition loadSettings :: "jsvalue \<Rightarrow> (jsstring \<times> jsvalue) list" where
  "loadSettings data =
     Object_assign (Object_assign [] (JObject (settings_object DEFAULT_SETTINGS))) data"

definition saveSettings :: "(jsstring \<times> jsvalue) list \<Rightarrow> jsvalue" where
  "saveSettings settings = saveData (JObject settings)"

section \<open>The platform: requests, responses, effects\<close>

datatype payload = Text jsstring | JsonText jsvalue

text \<open>
  The second argument of \<^verbatim>\<open>fetch\<close> together with the URL. \<open>Text b\<close> is a body given as
  a string; \<open>JsonText v\<close> is the body \<^verbatim>\<open>JSON.stringify(...)\<close> produced, kept as the JSON
  value \<open>v\<close> it denotes.
\<close>

record request =
  url :: jsstring
  httpMethod :: jsstring
  headers :: "(jsstring \<times> jsstring) list"
  body :: payload

text \<open>
  A response: its status line and what \<^verbatim>\<open>response.json()\<close> settles to. \<^verbatim>\<open>response.ok\<close>
  is, by the Fetch standard, the status being in the range 200 to 299.
\<close>

record response =
  status :: nat
  statusText :: jsstring
  json :: "exn + jsvalue"

definition ok :: "response \<Rightarrow> bool" where
  "ok r = (200 \<le> status r \<and> status r \<le> 299)"

text \<open>
  What the program does not determine: the answer of the network to a request (a
  rejection of \<^verbatim>\<open>fetch\<close> or a response), the values of \<^verbatim>\<open>Math.random() * 16 | 0\<close> in
  the order they are drawn, and the text of a number.
\<close>

record platform =
  fetch :: "request \<Rightarrow> exn + response"
  random :: "nat \<Rightarrow> nat"
  number_text :: "number \<Rightarrow> jsstring"

text \<open>
  The entries of the log. One constructor stands for each \<^verbatim>\<open>logMessage\<close> call of the
  source, in the order of the source, and carries what its template interpolates (a value
  that is converted to a string is carried as that string); the wording of the messages
  is not modelled.
\<close>

datatype log_type = info | error | success

datatype log_text =
    TestConnectionStarted
  | ApiKeyNotSet
  | GettingAccessToken
  | AccessTokenNotObtained
  | AccessTokenObtained
  | TestingMessage
  | ConnectionEstablished
  | TestRequestNotSent
  | TestingFailed exn
  | TokenRequestSent
  | TokenReceived jsstring
  | TokenError exn
  | TestRequestSent
  | TestResponseReceived jsvalue
  | TestRequestError exn
  | GenerationError exn
  | GeneratingText jsstring
  | GeneratedChars jsstring
  | GeneratingWithContext nat jsstring
  | GeneratedCharsWithContext jsstring

datatype notice = SetApiKeyNotice | EnterPromptNotice

datatype button_text = GenerateLabel | GeneratingLabel

datatype status_text = NoStatus | SendingStatus | ErrorStatus exn

text \<open>
  The effects of an action: the requests handed to \<^verbatim>\<open>fetch\<close> (oldest first), the log, and
  for the modal dialog the notices shown, the generate button, the status element, the
  texts handed to \<^verbatim>\<open>editor.replaceRange\<close> (at the cursor), and whether the dialog was
  closed. Calls into the host's user interface are taken to return normally.
\<close>

record world =
  sent :: "request list"
  console :: "(log_type \<times> log_text) list"
  notices :: "notice list"
  buttonText :: button_text
  buttonDisabled :: bool
  statusEl :: status_text
  replaced :: "jsvalue list"
  closed :: bool

definition logMessage :: "TextGeneratorSettings \<Rightarrow> log_text \<Rightarrow> log_type \<Rightarrow> world \<Rightarrow> world" where
  "logMessage s message type w =
     (if \<not> logMessages s then w else w\<lparr>console := console w @ [(type, message)]\<rparr>)"

definition call_fetch :: "platform \<Rightarrow> request \<Rightarrow> world \<Rightarrow> (exn + response) \<times> world" where
  "call_fetch p rq w = (fetch p rq, w\<lparr>sent := sent w @ [rq]\<rparr>)"

section \<open>The plugin\<close>

definition hex_digit :: "nat \<Rightarrow> 16 word" where
  "hex_digit v = (if v < 10 then of_nat (48 + v) else of_nat (87 + v))"

fun uuid_replace :: "string \<Rightarrow> (nat \<Rightarrow> nat) \<Rightarrow> nat \<Rightarrow> jsstring" where
  "uuid_replace [] rnd i = []"
| "uuid_replace (c # cs) rnd i =
     (if c = CHR ''x'' then hex_digit (rnd i mod 16) # uuid_replace cs rnd (Suc i)
      else if c = CHR ''y'' then hex_digit (((rnd i mod 16) AND 3) OR 8) # uuid_replace cs rnd (Suc i)
      else of_nat (of_char c) # uuid_replace cs rnd i)"

definition generateUuid :: "platform \<Rightarrow> jsstring" where
  "generateUuid p = uuid_replace ''xxxxxxxx-xxxx-4xxx-yxxx-xxxxxxxxxxxx'' (random p) 0"

definition token_request :: "TextGeneratorSettings \<Rightarrow> platform \<Rightarrow> request" where
  "token_request s p = \<lparr>
     url = authUrl s,
     httpMethod = ascii ''POST'',
     headers =
       [(ascii ''Content-Type'', ascii ''application/x-www-form-urlencoded''),
        (ascii ''Authorization'', ascii ''Basic '' @ clientId s),
        (ascii ''RqUID'', generateUuid p)],
     body = Text (ascii ''scope='' @ scope s) \<rparr>"

text \<open>
  The \<^verbatim>\<open>try\<close> block of \<^verbatim>\<open>getAccessToken\<close>, and the method with its \<^verbatim>\<open>catch\<close>. The
  argument of a \<^verbatim>\<open>logMessage\<close> call is a template that is evaluated before the call,
  with logging on or off, so the conversion of \<^verbatim>\<open>authData.expires_in\<close> to a string can
  throw inside the \<^verbatim>\<open>try\<close>.
\<close>

definition getAccessToken_try ::
  "TextGeneratorSettings \<Rightarrow> platform \<Rightarrow> world \<Rightarrow> (exn + jsvalue) \<times> world" where
  "getAccessToken_try s p w =
     (let w1 = logMessage s TokenRequestSent info w;
          (fetched, w2) = call_fetch p (token_request s p) w1
      in case fetched of
           Inl e \<Rightarrow> (Inl e, w2)
         | Inr authResponse \<Rightarrow>
             if \<not> ok authResponse
             then (Inl (Error (ascii ''HTTP '' @ decimal (status authResponse) @ ascii '': ''
                               @ statusText authResponse)), w2)
             else (case json authResponse of
                     Inl e \<Rightarrow> (Inl e, w2)
                   | Inr authData \<Rightarrow>
                       (case get authData (Name (ascii ''expires_in'')) of
                          Inl e \<Rightarrow> (Inl e, w2)
                        | Inr expires_in \<Rightarrow>
                            (case to_string (number_text p) expires_in of
                               Inl e \<Rightarrow> (Inl e, w2)
                             | Inr seconds \<Rightarrow>
                                 (let w3 = logMessage s (TokenReceived seconds) info w2
                                  in case get authData (Name (ascii ''access_token'')) of
                                       Inl e \<Rightarrow> (Inl e, w3)
                                     | Inr access_token \<Rightarrow> (Inr access_token, w3))))))"

definition getAccessToken ::
  "TextGeneratorSettings \<Rightarrow> platform \<Rightarrow> world \<Rightarrow> (exn + jsvalue) \<times> world" where
  "getAccessToken s p w =
     (let (r, w') = getAccessToken_try s p w
      in case r of
           Inl e \<Rightarrow> (Inl e, logMessage s (TokenError e) error w')
         | Inr accessToken \<Rightarrow> (Inr accessToken, w'))"

text \<open>
  The three completion requests of the source have the same shape: the object literal
  given to \<^verbatim>\<open>JSON.stringify\<close>, and the request around it. The \<^verbatim>\<open>Authorization\<close> header is
  a template that converts the token to a string, which can throw while the arguments of
  \<^verbatim>\<open>fetch\<close> are evaluated; then \<^verbatim>\<open>fetch\<close> is not called.
\<close>

definition chat_body :: "TextGeneratorSettings \<Rightarrow> jsstring \<Rightarrow> number \<Rightarrow> number \<Rightarrow> jsvalue" where
  "chat_body s content temp max_tokens =
     JObject
       [(ascii ''model'', JString (model s)),
        (ascii ''messages'',
           JArray [JObject [(ascii ''role'', JString (ascii ''user'')),
                            (ascii ''content'', JString content)]]),
        (ascii ''temperature'', JNumber temp),
        (ascii ''max_tokens'', JNumber max_tokens)]"

definition chat_request ::
  "TextGeneratorSettings \<Rightarrow> platform \<Rightarrow> jsvalue \<Rightarrow> jsstring \<Rightarrow> number \<Rightarrow> number
     \<Rightarrow> exn + request" where
  "chat_request s p accessToken content temp max_tokens =
     (case to_string (number_text p) accessToken of
        Inl e \<Rightarrow> Inl e
      | Inr bearer \<Rightarrow>
          Inr \<lparr> url = apiUrl s @ ascii ''/chat/completions'',
                httpMethod = ascii ''POST'',
                headers =
                  [(ascii ''Content-Type'', ascii ''application/json''),
                   (ascii ''Authorization'', ascii ''Bearer '' @ bearer)],
                body = JsonText (JSON_stringify (chat_body s content temp max_tokens)) \<rparr>)"

definition test_prompt :: jsstring where
  "test_prompt =
     [0x41E, 0x442, 0x432, 0x435, 0x442, 0x44C, 0x20, 0x43E, 0x434, 0x43D, 0x438, 0x43C, 0x20,
      0x441, 0x43B, 0x43E, 0x432, 0x43E, 0x43C, 0x3A, 0x20, 0x22, 0x440, 0x430, 0x431, 0x43E,
      0x442, 0x430, 0x435, 0x442, 0x22]"

definition testApiRequest ::
  "TextGeneratorSettings \<Rightarrow> platform \<Rightarrow> jsvalue \<Rightarrow> world \<Rightarrow> bool \<times> world" where
  "testApiRequest s p accessToken w =
     (let w1 = logMessage s TestRequestSent info w
      in case chat_request s p accessToken test_prompt (Num (1 / 10)) (Num 10) of
           Inl e \<Rightarrow> (False, logMessage s (TestRequestError e) error w1)
         | Inr rq \<Rightarrow>
             (let (fetched, w2) = call_fetch p rq w1
              in case fetched of
                   Inl e \<Rightarrow> (False, logMessage s (TestRequestError e) error w2)
                 | Inr response \<Rightarrow>
                     if \<not> ok response
                     then (False,
                           logMessage s
                             (TestRequestError
                                (Error (ascii ''HTTP '' @ decimal (status response) @ ascii '': ''
                                        @ statusText response))) error w2)
                     else (case json response of
                             Inl e \<Rightarrow> (False, logMessage s (TestRequestError e) error w2)
                           | Inr data \<Rightarrow>
                               (True, logMessage s (TestResponseReceived data) info w2))))"

definition testConnection :: "TextGeneratorSettings \<Rightarrow> platform \<Rightarrow> world \<Rightarrow> bool \<times> world" where
  "testConnection s p w =
     (let w1 = logMessage s TestConnectionStarted info w
      in if apiKey s = [] then (False, logMessage s ApiKeyNotSet error w1)
         else
           (let w2 = logMessage s GettingAccessToken info w1;
                (r, w3) = getAccessToken s p w2
            in case r of
                 Inl e \<Rightarrow> (False, logMessage s (TestingFailed e) error w3)
               | Inr accessToken \<Rightarrow>
                   if \<not> truthy accessToken
                   then (False, logMessage s AccessTokenNotObtained error w3)
                   else
                     (let w4 = logMessage s AccessTokenObtained success w3;
                          w5 = logMessage s TestingMessage info w4;
                          (testResponse, w6) = testApiRequest s p accessToken w5
                      in if testResponse
                         then (True, logMessage s ConnectionEstablished success w6)
                         else (False, logMessage s TestRequestNotSent error w6))))"

section \<open>The generation dialog\<close>

text \<open>\<^verbatim>\<open>data.choices[0].message.content\<close>\<close>

definition first_choice_content :: "jsvalue \<Rightarrow> exn + jsvalue" where
  "first_choice_content data =
     then_get (then_get (then_get (get data (Name (ascii ''choices''))) (Index 0))
       (Name (ascii ''message''))) (Name (ascii ''content''))"

text \<open>
  The two generation operations. The last log message interpolates
  \<^verbatim>\<open>generatedText.length\<close>; its conversion to a string can throw, and it is evaluated
  with logging on or off.
\<close>

definition generateText ::
  "TextGeneratorSettings \<Rightarrow> platform \<Rightarrow> jsstring \<Rightarrow> jsvalue \<Rightarrow> world \<Rightarrow> (exn + jsvalue) \<times> world" where
  "generateText s p prompt accessToken w =
     (let w1 = logMessage s (GeneratingText (take 50 prompt)) info w
      in case chat_request s p accessToken prompt (temperature s) (maxTokens s) of
           Inl e \<Rightarrow> (Inl e, w1)
         | Inr rq \<Rightarrow>
             (let (fetched, w2) = call_fetch p rq w1
              in case fetched of
                   Inl e \<Rightarrow> (Inl e, w2)
                 | Inr response \<Rightarrow>
                     if \<not> ok response
                     then (Inl (Error (ascii ''API error: '' @ decimal (status response)
                                       @ ascii '' '' @ statusText response)), w2)
                     else (case json response of
                             Inl e \<Rightarrow> (Inl e, w2)
                           | Inr data \<Rightarrow>
                               (case first_choice_content data of
                                  Inl e \<Rightarrow> (Inl e, w2)
                                | Inr generatedText \<Rightarrow>
                                    (case get generatedText (Name (ascii ''length'')) of
                                       Inl e \<Rightarrow> (Inl e, w2)
                                     | Inr len \<Rightarrow>
                                         (case to_string (number_text p) len of
                                            Inl e \<Rightarrow> (Inl e, w2)
                                          | Inr chars \<Rightarrow>
                                              (Inr generatedText,
                                               logMessage s (GeneratedChars chars) success w2)))))))"

definition context_separator :: jsstring where
  "context_separator =
     [0xA, 0xA, 0x41A, 0x43E, 0x43D, 0x442, 0x435, 0x43A, 0x441, 0x442, 0x3A, 0xA, 0x22]"

definition fullPrompt :: "jsstring \<Rightarrow> jsstring \<Rightarrow> jsstring" where
  "fullPrompt prompt context = prompt @ context_separator @ context @ [0x22]"

definition generateTextWithContext ::
  "TextGeneratorSettings \<Rightarrow> platform \<Rightarrow> jsstring \<Rightarrow> jsstring \<Rightarrow> jsvalue \<Rightarrow> world
     \<Rightarrow> (exn + jsvalue) \<times> world" where
  "generateTextWithContext s p prompt context accessToken w =
     (let w1 = logMessage s (GeneratingWithContext (length context) (take 50 prompt)) info w
      in case chat_request s p accessToken (fullPrompt prompt context) (temperature s) (maxTokens s) of
           Inl e \<Rightarrow> (Inl e, w1)
         | Inr rq \<Rightarrow>
             (let (fetched, w2) = call_fetch p rq w1
              in case fetched of
                   Inl e \<Rightarrow> (Inl e, w2)
                 | Inr response \<Rightarrow>
                     if \<not> ok response
                     then (Inl (Error (ascii ''API error: '' @ decimal (status response)
                                       @ ascii '' '' @ statusText response)), w2)
                     else (case json response of
                             Inl e \<Rightarrow> (Inl e, w2)
                           | Inr data \<Rightarrow>
                               (case first_choice_content data of
                                  Inl e \<Rightarrow> (Inl e, w2)
                                | Inr generatedText \<Rightarrow>
                                    (case get generatedText (Name (ascii ''length'')) of
                                       Inl e \<Rightarrow> (Inl e, w2)
                                     | Inr len \<Rightarrow>
                                         (case to_string (number_text p) len of
                                            Inl e \<Rightarrow> (Inl e, w2)
                                          | Inr chars \<Rightarrow>
                                              (Inr generatedText,
                                               logMessage s (GeneratedCharsWithContext chars) success w2)))))))"

text \<open>
  The handler of the generate button in \<^verbatim>\<open>onOpen\<close>: \<open>initialText\<close> is the selection the
  dialog was opened with (empty when there was none) and \<open>prompt\<close> the content of the
  input field. \<open>generate_try\<close> is the \<^verbatim>\<open>try\<close> block.
\<close>

definition generate_try ::
  "TextGeneratorSettings \<Rightarrow> platform \<Rightarrow> jsstring \<Rightarrow> jsstring \<Rightarrow> world \<Rightarrow> (exn + unit) \<times> world" where
  "generate_try s p initialText prompt w =
     (let (r, w1) = getAccessToken s p w
      in case r of
           Inl e \<Rightarrow> (Inl e, w1)
         | Inr accessToken \<Rightarrow>
             (let (g, w2) =
                    (if initialText \<noteq> []
                     then generateTextWithContext s p prompt initialText accessToken w1
                     else generateText s p prompt accessToken w1)
              in case g of
                   Inl e \<Rightarrow> (Inl e, w2)
                 | Inr generatedText \<Rightarrow>
                     (Inr (), w2\<lparr>replaced := replaced w2 @ [generatedText], closed := True\<rparr>)))"

definition generateButton_onclick ::
  "TextGeneratorSettings \<Rightarrow> platform \<Rightarrow> jsstring \<Rightarrow> jsstring \<Rightarrow> world \<Rightarrow> world" where
  "generateButton_onclick s p initialText prompt w =
     (if apiKey s = [] then w\<lparr>notices := notices w @ [SetApiKeyNotice]\<rparr>
      else if prompt = [] then w\<lparr>notices := notices w @ [EnterPromptNotice]\<rparr>
      else
        (let w1 = w\<lparr>buttonText := GeneratingLabel, buttonDisabled := True,
                     statusEl := SendingStatus\<rparr>;
             (r, w2) = generate_try s p initialText prompt w1;
             w3 = (case r of
                     Inl e \<Rightarrow> logMessage s (GenerationError e) error (w2\<lparr>statusEl := ErrorStatus e\<rparr>)
                   | Inr u \<Rightarrow> w2)
         in w3\<lparr>buttonText := GenerateLabel, buttonDisabled := False\<rparr>))"

section \<open>Observations and scenarios\<close>

text \<open>The JSON value a request carries as its body (\<^verbatim>\<open>undefined\<close> for a text body).\<close>

definition body_json :: "request \<Rightarrow> jsvalue" where
  "body_json rq = (case body rq of JsonText v \<Rightarrow> v | Text t \<Rightarrow> JUndefined)"

text \<open>
  Concrete platforms and worlds on which the theorems are exercised: a platform that
  answers every request with one response, one that answers the token URL with one
  response and every other URL with another, and the world in which nothing has happened.
  Their number text is the engine's for the natural numbers below \<open>10 ^ 21\<close>; for every
  other finite number it is only a stand-in, which no scenario below reaches.
\<close>

definition natural_text :: "number \<Rightarrow> jsstring" where
  "natural_text n =
     (case n of
        Num q \<Rightarrow> decimal (nat \<lfloor>q\<rfloor>)
      | NaN \<Rightarrow> ascii ''NaN''
      | PosInfinity \<Rightarrow> ascii ''Infinity''
      | NegInfinity \<Rightarrow> ascii ''-Infinity'')"

definition answering :: "response \<Rightarrow> platform" where
  "answering r = \<lparr> fetch = (\<lambda>rq. Inr r), random = (\<lambda>i. 0), number_text = natural_text \<rparr>"

definition answering_both :: "jsstring \<Rightarrow> response \<Rightarrow> response \<Rightarrow> platform" where
  "answering_both tokenUrl r1 r2 =
     \<lparr> fetch = (\<lambda>rq. if url rq = tokenUrl then Inr r1 else Inr r2), random = (\<lambda>i. 0),
       number_text = natural_text \<rparr>"

definition idle :: world where
  "idle = \<lparr> sent = [], console = [], notices = [], buttonText = GenerateLabel,
     buttonDisabled = False, statusEl = NoStatus, replaced = [], closed = False \<rparr>"

definition token_response :: "jsstring \<Rightarrow> rat \<Rightarrow> response" where
  "token_response t e =
     \<lparr> status = 200, statusText = ascii ''OK'',
       json = Inr (JObject [(ascii ''access_token'', JString t),
                            (ascii ''expires_in'', JNumber (Num e))]) \<rparr>"

definition unauthorized :: response where
  "unauthorized = \<lparr> status = 401, statusText = ascii ''Unauthorized'', json = Inr (JObject []) \<rparr>"

definition server_error :: response where
  "server_error =
     \<lparr> status = 500, statusText = ascii ''Internal Server Error'', json = Inr JNull \<rparr>"

definition completion_response :: "jsvalue \<Rightarrow> response" where
  "completion_response data = \<lparr> status = 200, statusText = ascii ''OK'', json = Inr data \<rparr>"

definition generated_response :: response where
  "generated_response =
     completion_response (JObject [(ascii ''choices'',
       JArray [JObject [(ascii ''message'',
         JObject [(ascii ''content'', JString (ascii ''Generated''))])]])])"

definition keyed :: TextGeneratorSettings where
  "keyed = DEFAULT_SETTINGS\<lparr>apiKey := ascii ''key''\<rparr>"

text \<open>
  The outcome of the two calls in the \<^verbatim>\<open>try\<close> block of the generate button: the error of
  \<open>getAccessToken\<close>, or else the outcome of the generation call the dialog chooses.
\<close>

definition generation_outcome ::
  "TextGeneratorSettings \<Rightarrow> platform \<Rightarrow> jsstring \<Rightarrow> jsstring \<Rightarrow> world \<Rightarrow> exn + jsvalue" where
  "generation_outcome s p initialText prompt w =
     (case fst (getAccessToken s p w) of
        Inl e \<Rightarrow> Inl e
      | Inr accessToken \<Rightarrow>
          fst (if initialText \<noteq> []
               then generateTextWithContext s p prompt initialText accessToken w
               else generateText s p prompt accessToken w))"

text \<open>Reading a decimal numeral back.\<close>

definition digit_value :: "16 word \<Rightarrow> nat" where
  "digit_value c = unat c - 48"

definition read_decimal :: "jsstring \<Rightarrow> nat" where
  "read_decimal cs = foldl (\<lambda>a c. 10 * a + digit_value c) 0 cs"

section \<open>Persistence of the settings\<close>

lemma map_of_fold_assign:
  "map_of (fold (\<lambda>(k, v) t. if k = proto then t else AList.update k v t) src tgt) k =
     (if k = proto then map_of tgt k else (map_of tgt ++ map_of (rev src)) k)"
proof (induction src arbitrary: tgt)
  case Nil
  show ?case by simp
next
  case (Cons q src)
  obtain k' v where q: "q = (k', v)" by (cases q)
  show ?case
    by (auto simp: q Cons.IH update_conv' map_add_def split: option.splits)
qed

lemma map_of_rev_distinct:
  "distinct (map fst ps) \<Longrightarrow> map_of (rev ps) = map_of ps"
proof (induction ps)
  case Nil
  show ?case by simp
next
  case (Cons p ps)
  obtain k v where p: "p = (k, v)" by (cases p)
  from Cons.prems have "map_of ps k = None"
    by (simp add: p map_of_eq_None_iff)
  with Cons show ?case
    by (auto simp: p map_add_def fun_eq_iff split: option.splits)
qed

lemma map_of_Object_assign:
  "map_of (Object_assign tgt src) k =
     (if k = ascii ''__proto__'' then map_of tgt k
      else (map_of tgt ++ map_of (rev (own_props src))) k)"
  unfolding Object_assign_def by (rule map_of_fold_assign)

lemma default_object: "Object_assign [] (JObject (settings_object s)) = settings_object s"
  by (simp add: Object_assign_def settings_object_def ascii_def)

lemma assign_same_keys:
  "Object_assign (settings_object d)
     (JObject [(ascii ''apiKey'', a), (ascii ''apiUrl'', b), (ascii ''authUrl'', c),
               (ascii ''clientId'', d'), (ascii ''scope'', e), (ascii ''model'', f),
               (ascii ''temperature'', g), (ascii ''maxTokens'', h),
               (ascii ''logMessages'', i)]) =
     [(ascii ''apiKey'', a), (ascii ''apiUrl'', b), (ascii ''authUrl'', c),
      (ascii ''clientId'', d'), (ascii ''scope'', e), (ascii ''model'', f),
      (ascii ''temperature'', g), (ascii ''maxTokens'', h), (ascii ''logMessages'', i)]"
  by (simp add: Object_assign_def settings_object_def ascii_def)

lemma saved_settings_object:
  "saveSettings (settings_object s) =
     JObject
       [(ascii ''apiKey'', JString (apiKey s)),
        (ascii ''apiUrl'', JString (apiUrl s)),
        (ascii ''authUrl'', JString (authUrl s)),
        (ascii ''clientId'', JString (clientId s)),
        (ascii ''scope'', JString (scope s)),
        (ascii ''model'', JString (model s)),
        (ascii ''temperature'',
           case temperature s of Num q \<Rightarrow> JNumber (Num q) | _ \<Rightarrow> JNull),
        (ascii ''maxTokens'',
           case maxTokens s of Num q \<Rightarrow> JNumber (Num q) | _ \<Rightarrow> JNull),
        (ascii ''logMessages'', JBool (logMessages s))]"
  by (simp add: saveSettings_def saveData_def settings_object_def)

text \<open>
  C9, as the code has it. Saving the object of a settings record and loading it again
  gives the nine properties in the same order, each with its saved value, except that a
  number that is not finite comes back as \<^verbatim>\<open>null\<close>; so the round trip gives the same
  object, property for property, whenever temperature and the maximal number of tokens
  are finite. Loading a persisted object \<open>ps\<close> (an object has each key once) gives, for
  every key other than \<^verbatim>\<open>__proto__\<close>, the persisted value where \<open>ps\<close> has the key and the
  value of \<open>DEFAULT_SETTINGS\<close> where it has not; the key \<^verbatim>\<open>__proto__\<close> never becomes a
  property. When nothing was persisted the result is the object of \<open>DEFAULT_SETTINGS\<close>,
  whose nine values are spelled out.
\<close>

theorem settings_round_trip_and_defaults:
  assumes "distinct (map fst ps)"
  shows "loadSettings (saveSettings (settings_object s)) =
      [(ascii ''apiKey'', JString (apiKey s)),
       (ascii ''apiUrl'', JString (apiUrl s)),
       (ascii ''authUrl'', JString (authUrl s)),
       (ascii ''clientId'', JString (clientId s)),
       (ascii ''scope'', JString (scope s)),
       (ascii ''model'', JString (model s)),
       (ascii ''temperature'',
          case temperature s of Num q \<Rightarrow> JNumber (Num q) | _ \<Rightarrow> JNull),
       (ascii ''maxTokens'',
          case maxTokens s of Num q \<Rightarrow> JNumber (Num q) | _ \<Rightarrow> JNull),
       (ascii ''logMessages'', JBool (logMessages s))] \<and>
    (is_finite (temperature s) \<and> is_finite (maxTokens s) \<longrightarrow>
       loadSettings (saveSettings (settings_object s)) = settings_object s) \<and>
    map_of (loadSettings (JObject ps)) k =
      (if k = ascii ''__proto__'' then None
       else case map_of ps k of
              Some v \<Rightarrow> Some v
            | None \<Rightarrow> map_of (settings_object DEFAULT_SETTINGS) k) \<and>
    loadSettings JNull = settings_object DEFAULT_SETTINGS \<and>
    settings_object DEFAULT_SETTINGS =
      [(ascii ''apiKey'', JString []),
       (ascii ''apiUrl'', JString (ascii ''https://gigachat.devices.sberbank.ru/api/v1'')),
       (ascii ''authUrl'', JString (ascii ''https://ngw.devices.sberbank.ru:9443/api/v2/oauth'')),
       (ascii ''clientId'', JString (ascii ''<base64>'')),
       (ascii ''scope'', JString (ascii ''GIGACHAT_API_PERS'')),
       (ascii ''model'', JString (ascii ''GigaChat'')),
       (ascii ''temperature'', JNumber (Num (7 / 10))),
       (ascii ''maxTokens'', JNumber (Num 1000)),
       (ascii ''logMessages'', JBool True)]"
proof -
  have rt: "loadSettings (saveSettings (settings_object s)) =
      [(ascii ''apiKey'', JString (apiKey s)),
       (ascii ''apiUrl'', JString (apiUrl s)),
       (ascii ''authUrl'', JString (authUrl s)),
       (ascii ''clientId'', JString (clientId s)),
       (ascii ''scope'', JString (scope s)),
       (ascii ''model'', JString (model s)),
       (ascii ''temperature'',
          case temperature s of Num q \<Rightarrow> JNumber (Num q) | _ \<Rightarrow> JNull),
       (ascii ''maxTokens'',
          case maxTokens s of Num q \<Rightarrow> JNumber (Num q) | _ \<Rightarrow> JNull),
       (ascii ''logMessages'', JBool (logMessages s))]"
    by (simp only: loadSettings_def saved_settings_object default_object assign_same_keys)
  have fin: "loadSettings (saveSettings (settings_object s)) = settings_object s"
    if "is_finite (temperature s)" and "is_finite (maxTokens s)"
    using that unfolding rt
    by (simp add: settings_object_def is_finite_def split: number.splits)
  have "map_of (rev ps) = map_of ps"
    using assms by (rule map_of_rev_distinct)
  then have part: "map_of (loadSettings (JObject ps)) k =
      (if k = ascii ''__proto__'' then None
       else case map_of ps k of
              Some v \<Rightarrow> Some v
            | None \<Rightarrow> map_of (settings_object DEFAULT_SETTINGS) k)"
    by (simp add: loadSettings_def default_object map_of_Object_assign map_add_def)
      (simp add: settings_object_def ascii_def)
  have null: "loadSettings JNull = settings_object DEFAULT_SETTINGS"
    by (simp add: loadSettings_def default_object) (simp add: Object_assign_def)
  have dflt: "settings_object DEFAULT_SETTINGS =
      [(ascii ''apiKey'', JString []),
       (ascii ''apiUrl'', JString (ascii ''https://gigachat.devices.sberbank.ru/api/v1'')),
       (ascii ''authUrl'', JString (ascii ''https://ngw.devices.sberbank.ru:9443/api/v2/oauth'')),
       (ascii ''clientId'', JString (ascii ''<base64>'')),
       (ascii ''scope'', JString (ascii ''GIGACHAT_API_PERS'')),
       (ascii ''model'', JString (ascii ''GigaChat'')),
       (ascii ''temperature'', JNumber (Num (7 / 10))),
       (ascii ''maxTokens'', JNumber (Num 1000)),
       (ascii ''logMessages'', JBool True)]"
    by (simp add: settings_object_def DEFAULT_SETTINGS_def)
  from rt fin part null dflt show ?thesis by blast
qed

theorem settings_round_trip_and_defaults_witness:
  "distinct (map fst [(ascii ''maxTokens'', JNumber (Num 5)), (ascii ''__proto__'', JNull)]) \<and>
   is_finite (temperature DEFAULT_SETTINGS) \<and> is_finite (maxTokens DEFAULT_SETTINGS) \<and>
   loadSettings (saveSettings (settings_object DEFAULT_SETTINGS))
     = settings_object DEFAULT_SETTINGS \<and>
   map_of (loadSettings (JObject [(ascii ''maxTokens'', JNumber (Num 5)),
                                  (ascii ''__proto__'', JNull)])) (ascii ''maxTokens'')
     = Some (JNumber (Num 5)) \<and>
   map_of (loadSettings (JObject [(ascii ''maxTokens'', JNumber (Num 5)),
                                  (ascii ''__proto__'', JNull)])) (ascii ''model'')
     = Some (JString (ascii ''GigaChat'')) \<and>
   map_of (loadSettings (JObject [(ascii ''maxTokens'', JNumber (Num 5)),
                                  (ascii ''__proto__'', JNull)])) (ascii ''__proto__'')
     = None"
  using settings_round_trip_and_defaults
      [of "[(ascii ''maxTokens'', JNumber (Num 5)), (ascii ''__proto__'', JNull)]"
        DEFAULT_SETTINGS "ascii ''maxTokens''"]
    settings_round_trip_and_defaults
      [of "[(ascii ''maxTokens'', JNumber (Num 5)), (ascii ''__proto__'', JNull)]"
        DEFAULT_SETTINGS "ascii ''model''"]
    settings_round_trip_and_defaults
      [of "[(ascii ''maxTokens'', JNumber (Num 5)), (ascii ''__proto__'', JNull)]"
        DEFAULT_SETTINGS "ascii ''__proto__''"]
  by (simp add: DEFAULT_SETTINGS_def is_finite_def ascii_def)

text \<open>
  C9 as the specification states it fails for a settings value that is not finite: the
  settings tab stores \<^verbatim>\<open>Number(value)\<close> of the text entered for the maximal number of
  tokens, which is \<^verbatim>\<open>NaN\<close> for a text that is not a number, and saves at once; after
  loading, the property is \<^verbatim>\<open>null\<close>.
\<close>

theorem settings_round_trip_nan_counterexample:
  "loadSettings (saveSettings (settings_object (DEFAULT_SETTINGS\<lparr>maxTokens := NaN\<rparr>)))
     \<noteq> settings_object (DEFAULT_SETTINGS\<lparr>maxTokens := NaN\<rparr>) \<and>
   map_of (loadSettings (saveSettings (settings_object (DEFAULT_SETTINGS\<lparr>maxTokens := NaN\<rparr>))))
     (ascii ''maxTokens'') = Some JNull"
  by (simp add: loadSettings_def saveSettings_def saveData_def Object_assign_def
      settings_object_def DEFAULT_SETTINGS_def ascii_def)

section \<open>Token acquisition\<close>

lemma ok_boundaries:
  "ok \<lparr> status = 200, statusText = [], json = Inr JNull \<rparr> \<and>
   ok \<lparr> status = 299, statusText = [], json = Inr JNull \<rparr> \<and>
   \<not> ok \<lparr> status = 199, statusText = [], json = Inr JNull \<rparr> \<and>
   \<not> ok \<lparr> status = 300, statusText = [], json = Inr JNull \<rparr>"
  by (simp add: ok_def)

lemma logMessage_fields [simp]:
  "sent (logMessage s m t w) = sent w"
  "replaced (logMessage s m t w) = replaced w"
  "closed (logMessage s m t w) = closed w"
  "notices (logMessage s m t w) = notices w"
  "statusEl (logMessage s m t w) = statusEl w"
  "buttonText (logMessage s m t w) = buttonText w"
  "buttonDisabled (logMessage s m t w) = buttonDisabled w"
  by (simp_all add: logMessage_def)

lemma getAccessToken_independent:
  "fst (getAccessToken s p w) = fst (getAccessToken s p w')"
  by (simp add: getAccessToken_def getAccessToken_try_def call_fetch_def Let_def
      split: sum.splits)

lemma getAccessToken_sent:
  "sent (snd (getAccessToken s p w)) = sent w @ [token_request s p]"
  by (simp add: getAccessToken_def getAccessToken_try_def call_fetch_def Let_def
      split: sum.splits)

text \<open>
  C1, as the code has it. When the token endpoint answers with a success status and a
  JSON object that has the properties \<^verbatim>\<open>access_token\<close> and \<^verbatim>\<open>expires_in\<close>,
  \<open>getAccessToken\<close> returns the value of \<^verbatim>\<open>access_token\<close> itself, provided the value of
  \<^verbatim>\<open>expires_in\<close> can be converted to a string for the log message, as every number and
  every string can; when that conversion throws, \<open>getAccessToken\<close> throws the same error.
  The value of \<^verbatim>\<open>expires_in\<close> is not part of the result: its text goes into the log
  entry, and only when logging is enabled.
\<close>

theorem getAccessToken_returns_access_token:
  assumes "fetch p (token_request s p) = Inr r" and "ok r" and "json r = Inr (JObject ps)"
    and "map_of ps (ascii ''access_token'') = Some t"
    and "map_of ps (ascii ''expires_in'') = Some e"
  shows "fst (getAccessToken s p w) =
           (case to_string (number_text p) e of Inl x \<Rightarrow> Inl x | Inr seconds \<Rightarrow> Inr t) \<and>
         console (snd (getAccessToken s p w)) =
           console w @
             (if logMessages s
              then (case to_string (number_text p) e of
                      Inl x \<Rightarrow> [(info, TokenRequestSent), (error, TokenError x)]
                    | Inr seconds \<Rightarrow> [(info, TokenRequestSent), (info, TokenReceived seconds)])
              else []) \<and>
         (e = JNumber n \<longrightarrow> fst (getAccessToken s p w) = Inr t) \<and>
         (e = JString x \<longrightarrow> fst (getAccessToken s p w) = Inr t)"
  using assms
  by (auto simp add: getAccessToken_def getAccessToken_try_def call_fetch_def Let_def
      logMessage_def split: sum.splits)

theorem getAccessToken_returns_access_token_witness:
  "ok (token_response (ascii ''T'') 1800) \<and>
   fst (getAccessToken DEFAULT_SETTINGS (answering (token_response (ascii ''T'') 1800)) idle)
     = Inr (JString (ascii ''T'')) \<and>
   console (snd (getAccessToken DEFAULT_SETTINGS
                   (answering (token_response (ascii ''T'') 1800)) idle))
     = [(info, TokenRequestSent), (info, TokenReceived (ascii ''1800''))]"
  using getAccessToken_returns_access_token
      [of "answering (token_response (ascii ''T'') 1800)" DEFAULT_SETTINGS
        "token_response (ascii ''T'') 1800"
        "[(ascii ''access_token'', JString (ascii ''T'')),
          (ascii ''expires_in'', JNumber (Num 1800))]"
        "JString (ascii ''T'')" "JNumber (Num 1800)" idle "Num 1800" "[]"]
  by (simp add: answering_def token_response_def ok_def DEFAULT_SETTINGS_def idle_def
      natural_text_def decimal.simps digit_def ascii_def)

text \<open>
  C1 as the specification states it fails: on the mocked response with
  \<^verbatim>\<open>access_token: "T"\<close> and \<^verbatim>\<open>expires_in: 1800\<close> the result is not the record
  \<^verbatim>\<open>{value: "T", expiresInSeconds: 1800}\<close>, and it is the same result as for a response
  that expires after 60 seconds.
\<close>

theorem getAccessToken_record_counterexample:
  "fst (getAccessToken DEFAULT_SETTINGS (answering (token_response (ascii ''T'') 1800)) idle)
     \<noteq> Inr (JObject [(ascii ''value'', JString (ascii ''T'')),
                      (ascii ''expiresInSeconds'', JNumber (Num 1800))]) \<and>
   fst (getAccessToken DEFAULT_SETTINGS (answering (token_response (ascii ''T'') 1800)) idle)
     = fst (getAccessToken DEFAULT_SETTINGS (answering (token_response (ascii ''T'') 60)) idle)"
  by (simp add: getAccessToken_def getAccessToken_try_def call_fetch_def Let_def logMessage_def
      answering_def token_response_def ok_def ascii_def)

text \<open>
  An \<^verbatim>\<open>expires_in\<close> that is an object with a property \<^verbatim>\<open>toString\<close> of its own has no
  text: \<open>getAccessToken\<close> throws although the response carries a token.
\<close>

lemma getAccessToken_conversion_fault:
  "fst (getAccessToken DEFAULT_SETTINGS
          (answering \<lparr> status = 200, statusText = ascii ''OK'',
                       json = Inr (JObject
                         [(ascii ''access_token'', JString (ascii ''T'')),
                          (ascii ''expires_in'',
                             JObject [(ascii ''toString'', JNumber (Num 0))])]) \<rparr>) idle) =
     Inl (CannotConvert (JObject [(ascii ''toString'', JNumber (Num 0))]))"
  by (simp add: getAccessToken_def getAccessToken_try_def call_fetch_def Let_def logMessage_def
      answering_def ok_def ascii_def)

text \<open>
  C4. When the token endpoint answers with a status outside 200 to 299, \<open>getAccessToken\<close>
  throws an error whose message is \<^verbatim>\<open>HTTP\<close>, the status code in decimal, a colon and the
  status text; it returns no token, and the token request is the only request it sent.
\<close>

theorem getAccessToken_http_error:
  assumes "fetch p (token_request s p) = Inr r" and "\<not> ok r"
  shows "fst (getAccessToken s p w) =
           Inl (Error (ascii ''HTTP '' @ decimal (status r) @ ascii '': '' @ statusText r)) \<and>
         sent (snd (getAccessToken s p w)) = sent w @ [token_request s p]"
  using assms
  by (simp add: getAccessToken_def getAccessToken_try_def call_fetch_def Let_def)

theorem getAccessToken_http_error_witness:
  "\<not> ok unauthorized \<and>
   fst (getAccessToken DEFAULT_SETTINGS (answering unauthorized) idle) =
     Inl (Error (ascii ''HTTP 401: Unauthorized''))"
  using getAccessToken_http_error [of "answering unauthorized" DEFAULT_SETTINGS unauthorized idle]
  by (simp add: answering_def unauthorized_def ok_def ascii_def decimal.simps digit_def)

text \<open>
  The status code and the status text can both be read back from either error message:
  the code is the run of digits before the first character that is not a digit.
\<close>

lemma unat_digit: "d < 10 \<Longrightarrow> unat (digit d) = 48 + d"
  by (simp add: digit_def unat_of_nat del: of_nat_add)

lemma read_decimal_decimal: "read_decimal (decimal n) = n"
proof (induction n rule: decimal.induct)
  case (1 n)
  show ?case
  proof (cases "n < 10")
    case True
    then show ?thesis
      by (subst decimal.simps) (simp add: read_decimal_def digit_value_def unat_digit)
  next
    case False
    with 1 have "read_decimal (decimal (n div 10)) = n div 10" by simp
    with False show ?thesis
      by (subst decimal.simps) (simp add: read_decimal_def digit_value_def unat_digit)
  qed
qed

lemma decimal_inj: "decimal m = decimal n \<Longrightarrow> m = n"
  by (metis read_decimal_decimal)

lemma decimal_digits: "c \<in> set (decimal n) \<Longrightarrow> 48 \<le> unat c \<and> unat c \<le> 57"
proof (induction n rule: decimal.induct)
  case (1 n)
  show ?case
  proof (cases "n < 10")
    case True
    with 1(2) show ?thesis
      by (subst (asm) decimal.simps) (auto simp add: unat_digit)
  next
    case False
    with 1 show ?thesis
      by (subst (asm) (2) decimal.simps) (auto simp add: unat_digit)
  qed
qed

lemma split_at_first:
  "c \<notin> set xs \<Longrightarrow> c \<notin> set ys \<Longrightarrow> xs @ c # us = ys @ c # vs \<Longrightarrow> xs = ys \<and> us = vs"
proof (induction xs arbitrary: ys)
  case Nil
  then show ?case by (cases ys) auto
next
  case (Cons x xs)
  then show ?case by (cases ys) auto
qed

lemma status_text_read_back:
  assumes "decimal m @ c # t = decimal n @ c # u" and "unat c < 48 \<or> 57 < unat c"
  shows "m = n \<and> t = u"
proof -
  have "c \<notin> set (decimal m)" "c \<notin> set (decimal n)"
    using assms(2) decimal_digits [of c m] decimal_digits [of c n] by auto
  with assms(1) have "decimal m = decimal n \<and> t = u"
    using split_at_first [of c "decimal m" "decimal n" t u] by blast
  then show ?thesis by (simp add: decimal_inj)
qed

lemma http_error_message_inj:
  "ascii ''HTTP '' @ decimal m @ ascii '': '' @ t = ascii ''HTTP '' @ decimal n @ ascii '': '' @ u
     \<Longrightarrow> m = n \<and> t = u"
  "ascii ''API error: '' @ decimal m @ ascii '' '' @ t =
   ascii ''API error: '' @ decimal n @ ascii '' '' @ u \<Longrightarrow> m = n \<and> t = u"
  using status_text_read_back [of m "58" "32 # t" n "32 # u"]
    status_text_read_back [of m "32" t n u]
  by (simp_all add: ascii_def)

section \<open>Completion requests\<close>

lemma generateText_sent:
  "sent (snd (generateText s p prompt tok w)) =
     sent w @ (case chat_request s p tok prompt (temperature s) (maxTokens s) of
                 Inl e \<Rightarrow> [] | Inr rq \<Rightarrow> [rq])"
  by (simp add: generateText_def call_fetch_def Let_def split: sum.splits)

lemma generateTextWithContext_sent:
  "sent (snd (generateTextWithContext s p prompt context tok w)) =
     sent w @ (case chat_request s p tok (fullPrompt prompt context) (temperature s)
                      (maxTokens s) of
                 Inl e \<Rightarrow> [] | Inr rq \<Rightarrow> [rq])"
  by (simp add: generateTextWithContext_def call_fetch_def Let_def split: sum.splits)

lemma generateText_independent:
  "fst (generateText s p prompt tok w) = fst (generateText s p prompt tok w')"
  by (simp add: generateText_def call_fetch_def Let_def split: sum.splits)

lemma generateTextWithContext_independent:
  "fst (generateTextWithContext s p prompt context tok w) =
   fst (generateTextWithContext s p prompt context tok w')"
  by (simp add: generateTextWithContext_def call_fetch_def Let_def split: sum.splits)

lemma generate_effects [simp]:
  "replaced (snd (generateText s p prompt tok w)) = replaced w"
  "closed (snd (generateText s p prompt tok w)) = closed w"
  "replaced (snd (generateTextWithContext s p prompt context tok w)) = replaced w"
  "closed (snd (generateTextWithContext s p prompt context tok w)) = closed w"
  by (simp_all add: generateText_def generateTextWithContext_def call_fetch_def Let_def
      split: sum.splits)

text \<open>
  C2. With a token that is a string, \<open>generateTextWithContext\<close> sends exactly one
  request, and its body has one message with role \<^verbatim>\<open>user\<close> whose content is the prompt,
  two line feeds, the word \<^verbatim>\<open>Kontekst\<close> in Cyrillic letters with a colon, a line feed,
  and the context between double quotes; \<open>generateText\<close> sends exactly one request whose
  single message has the prompt itself as its content. With any token at all, the same
  request is sent when the token has a text, and none when its conversion throws.
\<close>

theorem generation_message_content:
  "(\<exists>rq. sent (snd (generateTextWithContext s p prompt context (JString t) w)) = sent w @ [rq] \<and>
         get (body_json rq) (Name (ascii ''messages'')) =
           Inr (JArray [JObject
             [(ascii ''role'', JString (ascii ''user'')),
              (ascii ''content'',
                 JString (prompt @
                   [0xA, 0xA, 0x41A, 0x43E, 0x43D, 0x442, 0x435, 0x43A, 0x441, 0x442, 0x3A, 0xA, 0x22]
                   @ context @ [0x22]))]])) \<and>
   (\<exists>rq. sent (snd (generateText s p prompt (JString t) w)) = sent w @ [rq] \<and>
         get (body_json rq) (Name (ascii ''messages'')) =
           Inr (JArray [JObject
             [(ascii ''role'', JString (ascii ''user'')),
              (ascii ''content'', JString prompt)]])) \<and>
   (\<exists>rq. sent (snd (generateTextWithContext s p prompt context tok w)) =
           sent w @ (case to_string (number_text p) tok of Inl e \<Rightarrow> [] | Inr bearer \<Rightarrow> [rq]) \<and>
         get (body_json rq) (Name (ascii ''messages'')) =
           Inr (JArray [JObject
             [(ascii ''role'', JString (ascii ''user'')),
              (ascii ''content'',
                 JString (prompt @
                   [0xA, 0xA, 0x41A, 0x43E, 0x43D, 0x442, 0x435, 0x43A, 0x441, 0x442, 0x3A, 0xA, 0x22]
                   @ context @ [0x22]))]])) \<and>
   (\<exists>rq. sent (snd (generateText s p prompt tok w)) =
           sent w @ (case to_string (number_text p) tok of Inl e \<Rightarrow> [] | Inr bearer \<Rightarrow> [rq]) \<and>
         get (body_json rq) (Name (ascii ''messages'')) =
           Inr (JArray [JObject
             [(ascii ''role'', JString (ascii ''user'')),
              (ascii ''content'', JString prompt)]]))"
proof -
  define rq where "rq = (\<lambda>bearer content.
      \<lparr> url = apiUrl s @ ascii ''/chat/completions'', httpMethod = ascii ''POST'',
        headers = [(ascii ''Content-Type'', ascii ''application/json''),
                   (ascii ''Authorization'', ascii ''Bearer '' @ bearer)],
        body = JsonText (JSON_stringify (chat_body s content (temperature s) (maxTokens s))) \<rparr>)"
  have cr: "chat_request s p tok content (temperature s) (maxTokens s) =
      (case to_string (number_text p) tok of Inl e \<Rightarrow> Inl e | Inr bearer \<Rightarrow> Inr (rq bearer content))"
    for tok content
    by (simp add: chat_request_def rq_def split: sum.splits)
  have msg: "get (body_json (rq bearer content)) (Name (ascii ''messages'')) =
      Inr (JArray [JObject
             [(ascii ''role'', JString (ascii ''user'')),
              (ascii ''content'', JString content)]])" for bearer content
    by (simp add: rq_def body_json_def chat_body_def ascii_def)
  have full: "fullPrompt prompt context = prompt @
      [0xA, 0xA, 0x41A, 0x43E, 0x43D, 0x442, 0x435, 0x43A, 0x441, 0x442, 0x3A, 0xA, 0x22]
      @ context @ [0x22]"
    by (simp add: fullPrompt_def context_separator_def)
  have general: "\<exists>r. (sent w @ (case chat_request s p tok content (temperature s) (maxTokens s) of
                          Inl e \<Rightarrow> [] | Inr q \<Rightarrow> [q]) =
          sent w @ (case to_string (number_text p) tok of Inl e \<Rightarrow> [] | Inr bearer \<Rightarrow> [r])) \<and>
        get (body_json r) (Name (ascii ''messages'')) =
          Inr (JArray [JObject
             [(ascii ''role'', JString (ascii ''user'')),
              (ascii ''content'', JString content)]])" for tok content
  proof (cases "to_string (number_text p) tok")
    case (Inl e)
    then show ?thesis using msg [of "[]" content] by (auto simp add: cr)
  next
    case (Inr bearer)
    then show ?thesis using msg [of bearer content] by (auto simp add: cr)
  qed
  show ?thesis
    using general [of "JString t" "fullPrompt prompt context"] general [of "JString t" prompt]
      general [of tok "fullPrompt prompt context"] general [of tok prompt]
    by (simp add: generateText_sent generateTextWithContext_sent full)
qed

lemma generation_message_content_example:
  "get (body_json (last (sent (snd (generateTextWithContext DEFAULT_SETTINGS
      (answering generated_response) (ascii ''Fix this'') (ascii ''some text'')
      (JString (ascii ''T'')) idle))))) (Name (ascii ''messages'')) =
     Inr (JArray [JObject
       [(ascii ''role'', JString (ascii ''user'')),
        (ascii ''content'',
           JString (ascii ''Fix this'' @
             [0xA, 0xA, 0x41A, 0x43E, 0x43D, 0x442, 0x435, 0x43A, 0x441, 0x442, 0x3A, 0xA, 0x22]
             @ ascii ''some text'' @ [0x22]))]]) \<and>
   get (body_json (last (sent (snd (generateText DEFAULT_SETTINGS
      (answering generated_response) (ascii ''Hello'') (JString (ascii ''T'')) idle)))))
      (Name (ascii ''messages'')) =
     Inr (JArray [JObject
       [(ascii ''role'', JString (ascii ''user'')),
        (ascii ''content'', JString (ascii ''Hello''))]])"
  by (simp add: generateText_sent generateTextWithContext_sent chat_request_def chat_body_def
      body_json_def fullPrompt_def context_separator_def ascii_def)

text \<open>
  C3, as the code has it. The body of the request is the object with the four properties
  \<^verbatim>\<open>model\<close>, \<^verbatim>\<open>messages\<close>, \<^verbatim>\<open>temperature\<close> and \<^verbatim>\<open>max_tokens\<close>; the model is the
  configured one, the message list has one message with role \<^verbatim>\<open>user\<close>, and the two numbers
  are the configured ones, not clamped, when they are finite. A number that is not finite
  is written as \<^verbatim>\<open>null\<close> by \<^verbatim>\<open>JSON.stringify\<close>. This is stated for a token that is a
  string, and for any token, where the request is sent when the token has a text.
\<close>

theorem completion_body_fields:
  "(\<exists>rq. sent (snd (generateText s p prompt (JString t) w)) = sent w @ [rq] \<and>
      body rq = JsonText (JObject
        [(ascii ''model'', JString (model s)),
         (ascii ''messages'',
            JArray [JObject [(ascii ''role'', JString (ascii ''user'')),
                             (ascii ''content'', JString prompt)]]),
         (ascii ''temperature'',
            case temperature s of Num q \<Rightarrow> JNumber (Num q) | _ \<Rightarrow> JNull),
         (ascii ''max_tokens'',
            case maxTokens s of Num q \<Rightarrow> JNumber (Num q) | _ \<Rightarrow> JNull)])) \<and>
   (\<exists>rq. sent (snd (generateTextWithContext s p prompt context (JString t) w)) = sent w @ [rq] \<and>
      body rq = JsonText (JObject
        [(ascii ''model'', JString (model s)),
         (ascii ''messages'',
            JArray [JObject [(ascii ''role'', JString (ascii ''user'')),
                             (ascii ''content'', JString (fullPrompt prompt context))]]),
         (ascii ''temperature'',
            case temperature s of Num q \<Rightarrow> JNumber (Num q) | _ \<Rightarrow> JNull),
         (ascii ''max_tokens'',
            case maxTokens s of Num q \<Rightarrow> JNumber (Num q) | _ \<Rightarrow> JNull)])) \<and>
   (\<exists>rq. sent (snd (generateText s p prompt tok w)) =
        sent w @ (case to_string (number_text p) tok of Inl e \<Rightarrow> [] | Inr bearer \<Rightarrow> [rq]) \<and>
      body rq = JsonText (JObject
        [(ascii ''model'', JString (model s)),
         (ascii ''messages'',
            JArray [JObject [(ascii ''role'', JString (ascii ''user'')),
                             (ascii ''content'', JString prompt)]]),
         (ascii ''temperature'',
            case temperature s of Num q \<Rightarrow> JNumber (Num q) | _ \<Rightarrow> JNull),
         (ascii ''max_tokens'',
            case maxTokens s of Num q \<Rightarrow> JNumber (Num q) | _ \<Rightarrow> JNull)])) \<and>
   (\<exists>rq. sent (snd (generateTextWithContext s p prompt context tok w)) =
        sent w @ (case to_string (number_text p) tok of Inl e \<Rightarrow> [] | Inr bearer \<Rightarrow> [rq]) \<and>
      body rq = JsonText (JObject
        [(ascii ''model'', JString (model s)),
         (ascii ''messages'',
            JArray [JObject [(ascii ''role'', JString (ascii ''user'')),
                             (ascii ''content'', JString (fullPrompt prompt context))]]),
         (ascii ''temperature'',
            case temperature s of Num q \<Rightarrow> JNumber (Num q) | _ \<Rightarrow> JNull),
         (ascii ''max_tokens'',
            case maxTokens s of Num q \<Rightarrow> JNumber (Num q) | _ \<Rightarrow> JNull)]))"
proof -
  define rq where "rq = (\<lambda>bearer content.
      \<lparr> url = apiUrl s @ ascii ''/chat/completions'', httpMethod = ascii ''POST'',
        headers = [(ascii ''Content-Type'', ascii ''application/json''),
                   (ascii ''Authorization'', ascii ''Bearer '' @ bearer)],
        body = JsonText (JSON_stringify (chat_body s content (temperature s) (maxTokens s))) \<rparr>)"
  have cr: "chat_request s p tok content (temperature s) (maxTokens s) =
      (case to_string (number_text p) tok of Inl e \<Rightarrow> Inl e | Inr bearer \<Rightarrow> Inr (rq bearer content))"
    for tok content
    by (simp add: chat_request_def rq_def split: sum.splits)
  have bd: "body (rq bearer content) = JsonText (JObject
        [(ascii ''model'', JString (model s)),
         (ascii ''messages'',
            JArray [JObject [(ascii ''role'', JString (ascii ''user'')),
                             (ascii ''content'', JString content)]]),
         (ascii ''temperature'',
            case temperature s of Num q \<Rightarrow> JNumber (Num q) | _ \<Rightarrow> JNull),
         (ascii ''max_tokens'',
            case maxTokens s of Num q \<Rightarrow> JNumber (Num q) | _ \<Rightarrow> JNull)])" for bearer content
    by (simp add: rq_def chat_body_def)
  have general: "\<exists>r. (sent w @ (case chat_request s p tok content (temperature s) (maxTokens s) of
                          Inl e \<Rightarrow> [] | Inr q \<Rightarrow> [q]) =
          sent w @ (case to_string (number_text p) tok of Inl e \<Rightarrow> [] | Inr bearer \<Rightarrow> [r])) \<and>
        body r = JsonText (JObject
        [(ascii ''model'', JString (model s)),
         (ascii ''messages'',
            JArray [JObject [(ascii ''role'', JString (ascii ''user'')),
                             (ascii ''content'', JString content)]]),
         (ascii ''temperature'',
            case temperature s of Num q \<Rightarrow> JNumber (Num q) | _ \<Rightarrow> JNull),
         (ascii ''max_tokens'',
            case maxTokens s of Num q \<Rightarrow> JNumber (Num q) | _ \<Rightarrow> JNull)])" for tok content
  proof (cases "to_string (number_text p) tok")
    case (Inl e)
    then show ?thesis using bd [of "[]" content] by (auto simp add: cr)
  next
    case (Inr bearer)
    then show ?thesis using bd [of bearer content] by (auto simp add: cr)
  qed
  show ?thesis
    using general [of "JString t" "fullPrompt prompt context"] general [of "JString t" prompt]
      general [of tok "fullPrompt prompt context"] general [of tok prompt]
    by (simp add: generateText_sent generateTextWithContext_sent)
qed

text \<open>
  C3 as the specification states it fails for a value that is not finite. The settings
  tab stores \<^verbatim>\<open>Number(value)\<close> of the text entered for the maximal number of tokens, which
  is \<^verbatim>\<open>NaN\<close> for a text that is not a number; the request then carries
  \<^verbatim>\<open>max_tokens: null\<close>.
\<close>

theorem completion_body_nan_counterexample:
  "get (body_json (last (sent (snd (generateText (DEFAULT_SETTINGS\<lparr>maxTokens := NaN\<rparr>)
      (answering server_error) (ascii ''Hello'') (JString (ascii ''T'')) idle)))))
     (Name (ascii ''max_tokens'')) = Inr JNull \<and>
   get (body_json (last (sent (snd (generateText (DEFAULT_SETTINGS\<lparr>maxTokens := NaN\<rparr>)
      (answering server_error) (ascii ''Hello'') (JString (ascii ''T'')) idle)))))
     (Name (ascii ''max_tokens'')) \<noteq>
       Inr (JNumber (maxTokens (DEFAULT_SETTINGS\<lparr>maxTokens := NaN\<rparr>)))"
  by (simp add: generateText_sent chat_request_def chat_body_def body_json_def ascii_def)





text \<open>
  A content whose \<^verbatim>\<open>length\<close> has no text makes the operation throw after the answer
  was read.
\<close>

lemma generation_length_conversion_fault:
  "fst (generateText DEFAULT_SETTINGS
          (answering (completion_response (JObject [(ascii ''choices'',
             JArray [JObject [(ascii ''message'',
               JObject [(ascii ''content'',
                 JObject [(ascii ''length'',
                   JObject [(ascii ''toString'', JNull)])])])]])])))
          (ascii ''Hello'') (JString (ascii ''T'')) idle) =
     Inl (CannotConvert (JObject [(ascii ''toString'', JNull)]))"
  by (simp add: generateText_def chat_request_def call_fetch_def Let_def
      first_choice_content_def then_get_def
      answering_def completion_response_def ok_def ascii_def)

section \<open>The connection test\<close>

text \<open>
  The outcome of a call does not depend on the world it starts from
  (\<open>getAccessToken_independent\<close> and the lemmas below), so the theorems state outcomes at
  the world the action starts from.
\<close>

lemma testApiRequest_result:
  "fst (testApiRequest s p tok w) =
     (case chat_request s p tok test_prompt (Num (1 / 10)) (Num 10) of
        Inl e \<Rightarrow> False
      | Inr rq \<Rightarrow>
          (case fetch p rq of
             Inl e \<Rightarrow> False
           | Inr r \<Rightarrow> ok r \<and> (case json r of Inl e \<Rightarrow> False | Inr data \<Rightarrow> True)))"
  by (simp add: testApiRequest_def call_fetch_def Let_def split: sum.splits)

lemma testApiRequest_sent:
  "sent (snd (testApiRequest s p tok w)) =
     sent w @ (case chat_request s p tok test_prompt (Num (1 / 10)) (Num 10) of
                 Inl e \<Rightarrow> [] | Inr rq \<Rightarrow> [rq])"
  by (simp add: testApiRequest_def call_fetch_def Let_def split: sum.splits)

lemma testApiRequest_independent:
  "fst (testApiRequest s p tok w) = fst (testApiRequest s p tok w')"
  by (simp add: testApiRequest_result)

lemma testConnection_result:
  "fst (testConnection s p w) =
     (apiKey s \<noteq> [] \<and>
      (case fst (getAccessToken s p w) of
         Inl e \<Rightarrow> False
       | Inr tok \<Rightarrow> truthy tok \<and> fst (testApiRequest s p tok w)))"
proof (cases "apiKey s = []")
  case True
  then show ?thesis by (simp add: testConnection_def Let_def)
next
  case False
  let ?w2 = "logMessage s GettingAccessToken info (logMessage s TestConnectionStarted info w)"
  obtain r w3 where g: "getAccessToken s p ?w2 = (r, w3)" by (cases "getAccessToken s p ?w2")
  have r: "fst (getAccessToken s p w) = r"
    using g getAccessToken_independent [of s p w ?w2] by simp
  show ?thesis
  proof (cases r)
    case (Inl e)
    with False g r show ?thesis by (simp add: testConnection_def Let_def)
  next
    case (Inr tok)
    let ?w5 = "logMessage s TestingMessage info (logMessage s AccessTokenObtained success w3)"
    obtain b w6 where t: "testApiRequest s p tok ?w5 = (b, w6)"
      by (cases "testApiRequest s p tok ?w5")
    have "fst (testApiRequest s p tok w) = b"
      using t testApiRequest_independent [of s p tok w ?w5] by simp
    with False g r Inr t show ?thesis
      by (simp add: testConnection_def Let_def)
  qed
qed

lemma testConnection_sent:
  "sent (snd (testConnection s p w)) =
     sent w @
       (if apiKey s = [] then []
        else token_request s p #
          (case fst (getAccessToken s p w) of
             Inl e \<Rightarrow> []
           | Inr tok \<Rightarrow>
               if truthy tok
               then (case chat_request s p tok test_prompt (Num (1 / 10)) (Num 10) of
                       Inl e \<Rightarrow> [] | Inr rq \<Rightarrow> [rq])
               else []))"
proof (cases "apiKey s = []")
  case True
  then show ?thesis by (simp add: testConnection_def Let_def)
next
  case False
  let ?w2 = "logMessage s GettingAccessToken info (logMessage s TestConnectionStarted info w)"
  obtain r w3 where g: "getAccessToken s p ?w2 = (r, w3)" by (cases "getAccessToken s p ?w2")
  have r: "fst (getAccessToken s p w) = r"
    using g getAccessToken_independent [of s p w ?w2] by simp
  have w3: "sent w3 = sent w @ [token_request s p]"
    using g getAccessToken_sent [of s p ?w2] by simp
  show ?thesis
  proof (cases r)
    case (Inl e)
    with False g r w3 show ?thesis by (simp add: testConnection_def Let_def)
  next
    case (Inr tok)
    let ?w5 = "logMessage s TestingMessage info (logMessage s AccessTokenObtained success w3)"
    obtain b w6 where t: "testApiRequest s p tok ?w5 = (b, w6)"
      by (cases "testApiRequest s p tok ?w5")
    have "sent w6 = sent w3 @ (case chat_request s p tok test_prompt (Num (1 / 10)) (Num 10) of
                 Inl e \<Rightarrow> [] | Inr rq \<Rightarrow> [rq])"
      using t testApiRequest_sent [of s p tok ?w5] by simp
    with False g r w3 Inr t show ?thesis
      by (simp add: testConnection_def Let_def)
  qed
qed

text \<open>
  C8. \<open>testConnection\<close> returns true exactly when the API key is not empty,
  \<open>getAccessToken\<close> returns a token that is not empty, and \<open>testApiRequest\<close> with that
  token returns true. \<open>testApiRequest\<close> sends one request when the token has a text and
  none when its conversion throws; the request is spelled out: the configured model, the
  single user message with the fixed prompt (in Cyrillic letters, the words for
  \<^verbatim>\<open>Answer with one word:\<close> and, between double quotes, \<^verbatim>\<open>works\<close>), temperature 0.1 and
  \<^verbatim>\<open>max_tokens\<close> 10. It returns true exactly when that request was sent and answered with a
  success status and a body that parses as JSON. With an empty API key \<open>testConnection\<close>
  sends nothing; otherwise it sends the token request, followed by what \<open>testApiRequest\<close>
  sends when a token that is not empty was obtained.
\<close>

theorem testConnection_composition:
  "fst (testConnection s p w) =
     (apiKey s \<noteq> [] \<and>
      (case fst (getAccessToken s p w) of
         Inl e \<Rightarrow> False
       | Inr tok \<Rightarrow> truthy tok \<and> fst (testApiRequest s p tok w))) \<and>
   sent (snd (testApiRequest s p tok w)) =
     sent w @
       (case to_string (number_text p) tok of
          Inl e \<Rightarrow> []
        | Inr bearer \<Rightarrow>
            [\<lparr> url = apiUrl s @ ascii ''/chat/completions'',
               httpMethod = ascii ''POST'',
               headers = [(ascii ''Content-Type'', ascii ''application/json''),
                          (ascii ''Authorization'', ascii ''Bearer '' @ bearer)],
               body = JsonText (JObject
                 [(ascii ''model'', JString (model s)),
                  (ascii ''messages'',
                     JArray [JObject
                       [(ascii ''role'', JString (ascii ''user'')),
                        (ascii ''content'',
                           JString
                             [0x41E, 0x442, 0x432, 0x435, 0x442, 0x44C, 0x20, 0x43E, 0x434,
                              0x43D, 0x438, 0x43C, 0x20, 0x441, 0x43B, 0x43E, 0x432, 0x43E,
                              0x43C, 0x3A, 0x20, 0x22, 0x440, 0x430, 0x431, 0x43E, 0x442,
                              0x430, 0x435, 0x442, 0x22])]]),
                  (ascii ''temperature'', JNumber (Num (1 / 10))),
                  (ascii ''max_tokens'', JNumber (Num 10))]) \<rparr>]) \<and>
   fst (testApiRequest s p tok w) =
     (case to_string (number_text p) tok of
        Inl e \<Rightarrow> False
      | Inr bearer \<Rightarrow>
          (case fetch p (last (sent (snd (testApiRequest s p tok w)))) of
             Inl e \<Rightarrow> False
           | Inr r \<Rightarrow> ok r \<and> (case json r of Inl e \<Rightarrow> False | Inr data \<Rightarrow> True))) \<and>
   sent (snd (testConnection s p w)) =
     sent w @
       (if apiKey s = [] then []
        else token_request s p #
          (case fst (getAccessToken s p w) of
             Inl e \<Rightarrow> []
           | Inr tok \<Rightarrow>
               if truthy tok then drop (length (sent w)) (sent (snd (testApiRequest s p tok w)))
               else []))"
proof -
  have cr: "chat_request s p tok test_prompt (Num (1 / 10)) (Num 10) =
      (case to_string (number_text p) tok of
          Inl e \<Rightarrow> Inl e
        | Inr bearer \<Rightarrow>
            Inr \<lparr> url = apiUrl s @ ascii ''/chat/completions'',
               httpMethod = ascii ''POST'',
               headers = [(ascii ''Content-Type'', ascii ''application/json''),
                          (ascii ''Authorization'', ascii ''Bearer '' @ bearer)],
               body = JsonText (JObject
                 [(ascii ''model'', JString (model s)),
                  (ascii ''messages'',
                     JArray [JObject
                       [(ascii ''role'', JString (ascii ''user'')),
                        (ascii ''content'',
                           JString
                             [0x41E, 0x442, 0x432, 0x435, 0x442, 0x44C, 0x20, 0x43E, 0x434,
                              0x43D, 0x438, 0x43C, 0x20, 0x441, 0x43B, 0x43E, 0x432, 0x43E,
                              0x43C, 0x3A, 0x20, 0x22, 0x440, 0x430, 0x431, 0x43E, 0x442,
                              0x430, 0x435, 0x442, 0x22])]]),
                  (ascii ''temperature'', JNumber (Num (1 / 10))),
                  (ascii ''max_tokens'', JNumber (Num 10))]) \<rparr>)" for tok
    by (simp add: chat_request_def chat_body_def test_prompt_def split: sum.splits)
  have a: "sent (snd (testApiRequest s p tok w)) =
     sent w @
       (case to_string (number_text p) tok of
          Inl e \<Rightarrow> []
        | Inr bearer \<Rightarrow>
            [\<lparr> url = apiUrl s @ ascii ''/chat/completions'',
               httpMethod = ascii ''POST'',
               headers = [(ascii ''Content-Type'', ascii ''application/json''),
                          (ascii ''Authorization'', ascii ''Bearer '' @ bearer)],
               body = JsonText (JObject
                 [(ascii ''model'', JString (model s)),
                  (ascii ''messages'',
                     JArray [JObject
                       [(ascii ''role'', JString (ascii ''user'')),
                        (ascii ''content'',
                           JString
                             [0x41E, 0x442, 0x432, 0x435, 0x442, 0x44C, 0x20, 0x43E, 0x434,
                              0x43D, 0x438, 0x43C, 0x20, 0x441, 0x43B, 0x43E, 0x432, 0x43E,
                              0x43C, 0x3A, 0x20, 0x22, 0x440, 0x430, 0x431, 0x43E, 0x442,
                              0x430, 0x435, 0x442, 0x22])]]),
                  (ascii ''temperature'', JNumber (Num (1 / 10))),
                  (ascii ''max_tokens'', JNumber (Num 10))]) \<rparr>])"
    by (simp add: testApiRequest_sent cr split: sum.splits)
  have b: "fst (testApiRequest s p tok w) =
     (case to_string (number_text p) tok of
        Inl e \<Rightarrow> False
      | Inr bearer \<Rightarrow>
          (case fetch p (last (sent (snd (testApiRequest s p tok w)))) of
             Inl e \<Rightarrow> False
           | Inr r \<Rightarrow> ok r \<and> (case json r of Inl e \<Rightarrow> False | Inr data \<Rightarrow> True)))"
    by (cases "to_string (number_text p) tok")
      (simp_all add: testApiRequest_result testApiRequest_sent chat_request_def)
  have c: "drop (length (sent w)) (sent (snd (testApiRequest s p tok w))) =
      (case chat_request s p tok test_prompt (Num (1 / 10)) (Num 10) of
                       Inl e \<Rightarrow> [] | Inr rq \<Rightarrow> [rq])" for tok
    by (simp add: testApiRequest_sent)
  have d: "sent (snd (testConnection s p w)) =
     sent w @
       (if apiKey s = [] then []
        else token_request s p #
          (case fst (getAccessToken s p w) of
             Inl e \<Rightarrow> []
           | Inr tok \<Rightarrow>
               if truthy tok then drop (length (sent w)) (sent (snd (testApiRequest s p tok w)))
               else []))"
    by (simp add: testConnection_sent c split: sum.splits)
  from testConnection_result [of s p w] a b d show ?thesis by blast
qed

text \<open>
  The connection test on concrete platforms: a token and a good answer; a refused token
  request; an empty token, after which only the token request was sent; and a token that
  has no text, after which \<open>testApiRequest\<close> logs the fault and sends nothing.
\<close>

lemma testConnection_example:
  "fst (testConnection keyed
          (answering_both (authUrl keyed) (token_response (ascii ''T'') 1800) generated_response)
          idle) = True \<and>
   fst (testConnection keyed (answering unauthorized) idle) = False \<and>
   fst (testConnection keyed
          (answering_both (authUrl keyed) (token_response [] 1800) generated_response)
          idle) = False \<and>
   map url (sent (snd (testConnection keyed
          (answering_both (authUrl keyed) (token_response [] 1800) generated_response)
          idle))) = [authUrl keyed] \<and>
   testConnection keyed
     (answering_both (authUrl keyed)
        \<lparr> status = 200, statusText = ascii ''OK'',
          json = Inr (JObject
            [(ascii ''access_token'', JObject [(ascii ''toString'', JNull)]),
             (ascii ''expires_in'', JNumber (Num 1800))]) \<rparr>
        generated_response)
     (idle\<lparr>sent := []\<rparr>) =
   (False, idle\<lparr>sent := [token_request keyed
      (answering_both (authUrl keyed)
        \<lparr> status = 200, statusText = ascii ''OK'',
          json = Inr (JObject
            [(ascii ''access_token'', JObject [(ascii ''toString'', JNull)]),
             (ascii ''expires_in'', JNumber (Num 1800))]) \<rparr>
        generated_response)],
      console :=
        [(info, TestConnectionStarted), (info, GettingAccessToken), (info, TokenRequestSent),
         (info, TokenReceived (ascii ''1800'')), (success, AccessTokenObtained),
         (info, TestingMessage), (info, TestRequestSent),
         (error, TestRequestError (CannotConvert (JObject [(ascii ''toString'', JNull)]))),
         (error, TestRequestNotSent)]\<rparr>)"
  by (simp add: testConnection_def testApiRequest_def getAccessToken_def
      getAccessToken_try_def call_fetch_def Let_def logMessage_def keyed_def
      DEFAULT_SETTINGS_def answering_both_def answering_def token_response_def
      unauthorized_def generated_response_def completion_response_def ok_def
      token_request_def chat_request_def idle_def natural_text_def decimal.simps digit_def
      ascii_def)

section \<open>The generate button\<close>

lemma getAccessToken_effects [simp]:
  "replaced (snd (getAccessToken s p w)) = replaced w"
  "closed (snd (getAccessToken s p w)) = closed w"
  "statusEl (snd (getAccessToken s p w)) = statusEl w"
  by (simp_all add: getAccessToken_def getAccessToken_try_def call_fetch_def Let_def
      split: sum.splits)

lemma generate_status [simp]:
  "statusEl (snd (generateText s p prompt tok w)) = statusEl w"
  "statusEl (snd (generateTextWithContext s p prompt context tok w)) = statusEl w"
  by (simp_all add: generateText_def generateTextWithContext_def call_fetch_def Let_def
      split: sum.splits)

lemma generate_try_summary:
  "fst (generate_try s p initialText prompt w) =
     (case generation_outcome s p initialText prompt w' of Inl e \<Rightarrow> Inl e | Inr text \<Rightarrow> Inr ()) \<and>
   replaced (snd (generate_try s p initialText prompt w)) =
     replaced w @
       (case generation_outcome s p initialText prompt w' of Inl e \<Rightarrow> [] | Inr text \<Rightarrow> [text]) \<and>
   closed (snd (generate_try s p initialText prompt w)) =
     (case generation_outcome s p initialText prompt w' of Inl e \<Rightarrow> closed w | Inr text \<Rightarrow> True) \<and>
   statusEl (snd (generate_try s p initialText prompt w)) = statusEl w"
proof -
  define gen where "gen = (\<lambda>tok w.
      if initialText \<noteq> [] then generateTextWithContext s p prompt initialText tok w
      else generateText s p prompt tok w)"
  obtain r wa where g: "getAccessToken s p w = (r, wa)" by (cases "getAccessToken s p w")
  have r: "fst (getAccessToken s p w') = r"
    using g getAccessToken_independent [of s p w' w] by simp
  have "wa = snd (getAccessToken s p w)" using g by simp
  then have wa: "replaced wa = replaced w" "closed wa = closed w" "statusEl wa = statusEl w"
    by simp_all
  have gen_ind: "fst (gen tok wa) = fst (gen tok w')" for tok
    using generateText_independent [of s p prompt tok wa w']
      generateTextWithContext_independent [of s p prompt initialText tok wa w']
    by (simp add: gen_def)
  have gen_eff: "replaced (snd (gen tok wa)) = replaced w \<and> closed (snd (gen tok wa)) = closed w \<and>
      statusEl (snd (gen tok wa)) = statusEl w" for tok
    using wa by (simp add: gen_def)
  have unfold: "generate_try s p initialText prompt w =
      (case r of
         Inl e \<Rightarrow> (Inl e, wa)
       | Inr tok \<Rightarrow>
           (case fst (gen tok wa) of
              Inl e \<Rightarrow> (Inl e, snd (gen tok wa))
            | Inr text \<Rightarrow>
                (Inr (), (snd (gen tok wa))\<lparr>replaced := replaced (snd (gen tok wa)) @ [text],
                                             closed := True\<rparr>)))"
    using g by (simp add: generate_try_def gen_def Let_def split: prod.splits sum.splits)
  have outcome: "generation_outcome s p initialText prompt w' =
      (case r of Inl e \<Rightarrow> Inl e | Inr tok \<Rightarrow> fst (gen tok w'))"
    using r by (cases r) (simp_all add: generation_outcome_def gen_def)
  show ?thesis
  proof (cases r)
    case (Inl e)
    then show ?thesis using unfold outcome wa by simp
  next
    case (Inr tok)
    show ?thesis
    proof (cases "fst (gen tok w')")
      case (Inl e)
      with Inr unfold outcome gen_ind [of tok] gen_eff [of tok] show ?thesis by simp
    next
      case Inr2: (Inr generated)
      with Inr unfold outcome gen_ind [of tok] gen_eff [of tok] show ?thesis by simp
    qed
  qed
qed

text \<open>
  C10. The texts handed to \<^verbatim>\<open>editor.replaceRange\<close> by one press of the generate button
  are: the generated text, once, when both \<open>getAccessToken\<close> and the generation call
  return; and none when the API key or the prompt is empty or either call throws. In the
  same way the dialog is closed only on success. When a call throws, the status element
  shows the error and, with logging enabled, the last log entry is that error.
\<close>

theorem generation_inserts_only_on_success:
  "replaced (generateButton_onclick s p initialText prompt w) =
     replaced w @
       (if apiKey s = [] \<or> prompt = [] then []
        else case generation_outcome s p initialText prompt w of
               Inl e \<Rightarrow> []
             | Inr generatedText \<Rightarrow> [generatedText]) \<and>
   closed (generateButton_onclick s p initialText prompt w) =
       (if apiKey s = [] \<or> prompt = [] then closed w
        else case generation_outcome s p initialText prompt w of
               Inl e \<Rightarrow> closed w
             | Inr generatedText \<Rightarrow> True) \<and>
   statusEl (generateButton_onclick s p initialText prompt w) =
       (if apiKey s = [] \<or> prompt = [] then statusEl w
        else case generation_outcome s p initialText prompt w of
               Inl e \<Rightarrow> ErrorStatus e
             | Inr generatedText \<Rightarrow> SendingStatus) \<and>
   (apiKey s \<noteq> [] \<and> prompt \<noteq> [] \<and> logMessages s \<and>
    generation_outcome s p initialText prompt w = Inl e \<longrightarrow>
      console (generateButton_onclick s p initialText prompt w) \<noteq> [] \<and>
      last (console (generateButton_onclick s p initialText prompt w)) = (error, GenerationError e))"
proof (cases "apiKey s = [] \<or> prompt = []")
  case True
  then show ?thesis by (auto simp add: generateButton_onclick_def)
next
  case False
  let ?w1 = "w\<lparr>buttonText := GeneratingLabel, buttonDisabled := True, statusEl := SendingStatus\<rparr>"
  obtain r w2 where t: "generate_try s p initialText prompt ?w1 = (r, w2)"
    by (cases "generate_try s p initialText prompt ?w1")
  have w2: "r = (case generation_outcome s p initialText prompt w of
                  Inl e \<Rightarrow> Inl e | Inr text \<Rightarrow> Inr ())"
    "replaced w2 = replaced w @
       (case generation_outcome s p initialText prompt w of Inl e \<Rightarrow> [] | Inr text \<Rightarrow> [text])"
    "closed w2 =
       (case generation_outcome s p initialText prompt w of Inl e \<Rightarrow> closed w | Inr text \<Rightarrow> True)"
    "statusEl w2 = SendingStatus"
    using t generate_try_summary [of s p initialText prompt ?w1 w]
    by (simp_all split: sum.splits)
  show ?thesis
    using False t w2
    by (auto simp add: generateButton_onclick_def Let_def logMessage_def split: sum.splits)
qed

theorem generation_inserts_only_on_success_witness:
  "apiKey keyed \<noteq> [] \<and> ascii ''Hi'' \<noteq> [] \<and> logMessages keyed \<and>
   generation_outcome keyed (answering unauthorized) [] (ascii ''Hi'') idle =
     Inl (Error (ascii ''HTTP 401: Unauthorized'')) \<and>
   replaced (generateButton_onclick keyed (answering unauthorized) [] (ascii ''Hi'') idle) = [] \<and>
   last (console (generateButton_onclick keyed (answering unauthorized) [] (ascii ''Hi'') idle)) =
     (error, GenerationError (Error (ascii ''HTTP 401: Unauthorized'')))"
proof -
  have o: "generation_outcome keyed (answering unauthorized) [] (ascii ''Hi'') idle =
     Inl (Error (ascii ''HTTP 401: Unauthorized''))"
    by (simp add: generation_outcome_def getAccessToken_def getAccessToken_try_def call_fetch_def
        Let_def answering_def unauthorized_def ok_def ascii_def decimal.simps digit_def)
  have k: "apiKey keyed \<noteq> []" "logMessages keyed"
    by (simp_all add: keyed_def DEFAULT_SETTINGS_def ascii_def)
  show ?thesis
    using generation_inserts_only_on_success [of keyed "answering unauthorized" "[]" "ascii ''Hi''" idle
        "Error (ascii ''HTTP 401: Unauthorized'')"] o k
    by (simp add: idle_def ascii_def)
qed

text \<open>
  C6 fails on the code. The token endpoint answers with a success status and the empty
  string as \<^verbatim>\<open>access_token\<close>; the dialog (no selection, prompt \<^verbatim>\<open>Hi\<close>) still sends the
  completion request, with the header \<^verbatim>\<open>Authorization: Bearer\<close> and nothing after it,
  and inserts the answer. \<open>testConnection\<close> has the check (\<^verbatim>\<open>if (!accessToken)\<close>) that
  the dialog lacks.
\<close>

theorem generation_with_empty_token:
  "map url (sent (generateButton_onclick keyed
       (answering_both (authUrl keyed) (token_response [] 1800) generated_response)
       [] (ascii ''Hi'') idle)) =
     [authUrl keyed, apiUrl keyed @ ascii ''/chat/completions''] \<and>
   map_of (headers (last (sent (generateButton_onclick keyed
       (answering_both (authUrl keyed) (token_response [] 1800) generated_response)
       [] (ascii ''Hi'') idle)))) (ascii ''Authorization'') = Some (ascii ''Bearer '') \<and>
   replaced (generateButton_onclick keyed
       (answering_both (authUrl keyed) (token_response [] 1800) generated_response)
       [] (ascii ''Hi'') idle) = [JString (ascii ''Generated'')]"
  by (simp add: generateButton_onclick_def generate_try_def generateText_def
      getAccessToken_def getAccessToken_try_def call_fetch_def Let_def logMessage_def keyed_def
      DEFAULT_SETTINGS_def answering_both_def token_response_def
      generated_response_def completion_response_def ok_def first_choice_content_def then_get_def
      token_request_def chat_request_def idle_def ascii_def)

end
